theory Spec2Isabelle
  imports Complex_Main "HOL-Library.Multiset"
begin

section \<open>Frame extraction: sampling, scoring, scene detection, batch finalisation\<close>

text \<open>
  A shallow embedding of \<^verbatim>\<open>async_frame_extractor.py\<close> and
  \<^verbatim>\<open>basic_frame_extractor_optimized.py\<close>.

  Python \<^verbatim>\<open>float\<close> values are modelled as \<^typ>\<open>real\<close> (rounding of the
  binary64 format is not modelled), Python \<^verbatim>\<open>int\<close> as \<^typ>\<open>int\<close>, \<^verbatim>\<open>str\<close> as
  \<^typ>\<open>string\<close>, an exception as the left summand of a sum type.
\<close>

subsection \<open>Python primitives\<close>

datatype py_error = ZeroDivisionError | TypeError | OSError

text \<open>\<^verbatim>\<open>int(x)\<close> on a float truncates towards zero.\<close>

definition py_int :: "real \<Rightarrow> int" where
  "py_int x = (if 0 \<le> x then \<lfloor>x\<rfloor> else \<lceil>x\<rceil>)"

text \<open>\<^verbatim>\<open>a // b\<close> on integers: floor division, raising on a zero divisor.\<close>

definition py_floordiv :: "int \<Rightarrow> int \<Rightarrow> py_error + int" where
  "py_floordiv a b = (if b = 0 then Inl ZeroDivisionError else Inr (a div b))"

subsection \<open>Configuration constants\<close>

record scene_thresholds =
  pixel_threshold :: real
  histogram_threshold :: real
  structural_threshold :: real
  edge_threshold :: real
  color_threshold :: real

text \<open>
  The class attributes of \<^verbatim>\<open>AsyncFrameExtractorConfig\<close> and of
  \<^verbatim>\<open>FrameExtractorConfig\<close> that the modelled methods read. Both classes
  declare the same attribute names, so one record type holds either.
\<close>

record extractor_config =
  DEFAULT_MAX_BASE_FRAMES :: int
  INTERVAL_ULTRA_SHORT :: real
  INTERVAL_SHORT :: real
  INTERVAL_MEDIUM_SHORT :: real
  INTERVAL_MEDIUM :: real
  INTERVAL_LONG :: real
  INTERVAL_VERY_LONG :: real
  INTERVAL_EXTRA_LONG :: real
  INTERVAL_HOUR :: real
  INTERVAL_SUPER_LONG :: real
  DURATION_ULTRA_SHORT :: real
  DURATION_SHORT :: real
  DURATION_MEDIUM_SHORT :: real
  DURATION_MEDIUM :: real
  DURATION_LONG :: real
  DURATION_VERY_LONG :: real
  DURATION_EXTRA_LONG :: real
  DURATION_HOUR :: real
  FPS_LOW :: real
  FPS_STANDARD :: real
  FPS_HIGH :: real
  FPS_FACTOR_LOW :: real
  FPS_FACTOR_STANDARD_HIGH :: real
  FPS_FACTOR_HIGH :: real
  QUALITY_WEIGHT_SHARPNESS :: real
  QUALITY_WEIGHT_CONTRAST :: real
  QUALITY_WEIGHT_BRIGHTNESS :: real
  SCENE_THRESHOLDS :: "string \<rightharpoonup> scene_thresholds"
  INTENSITY_THRESHOLDS :: "string \<rightharpoonup> real"
  MIN_FRAME_COUNT :: int
  MAX_FRAME_PERCENTAGE :: real

definition AsyncFrameExtractorConfig :: extractor_config where
  "AsyncFrameExtractorConfig = \<lparr>
     DEFAULT_MAX_BASE_FRAMES = 80,
     INTERVAL_ULTRA_SHORT = 0.2,
     INTERVAL_SHORT = 0.5,
     INTERVAL_MEDIUM_SHORT = 0.8,
     INTERVAL_MEDIUM = 1.0,
     INTERVAL_LONG = 1.5,
     INTERVAL_VERY_LONG = 2.0,
     INTERVAL_EXTRA_LONG = 2.5,
     INTERVAL_HOUR = 3.0,
     INTERVAL_SUPER_LONG = 4.0,
     DURATION_ULTRA_SHORT = 3,
     DURATION_SHORT = 10,
     DURATION_MEDIUM_SHORT = 30,
     DURATION_MEDIUM = 120,
     DURATION_LONG = 300,
     DURATION_VERY_LONG = 600,
     DURATION_EXTRA_LONG = 1800,
     DURATION_HOUR = 3600,
     FPS_LOW = 15,
     FPS_STANDARD = 30,
     FPS_HIGH = 60,
     FPS_FACTOR_LOW = 0.8,
     FPS_FACTOR_STANDARD_HIGH = 1.15,
     FPS_FACTOR_HIGH = 1.3,
     QUALITY_WEIGHT_SHARPNESS = 0.5,
     QUALITY_WEIGHT_CONTRAST = 0.3,
     QUALITY_WEIGHT_BRIGHTNESS = 0.2,
     SCENE_THRESHOLDS = map_of [
       (''low'', \<lparr>pixel_threshold = 40.0, histogram_threshold = 1000.0,
          structural_threshold = 15.0, edge_threshold = 25.0, color_threshold = 800.0\<rparr>),
       (''medium'', \<lparr>pixel_threshold = 25.0, histogram_threshold = 500.0,
          structural_threshold = 10.0, edge_threshold = 15.0, color_threshold = 400.0\<rparr>),
       (''high'', \<lparr>pixel_threshold = 15.0, histogram_threshold = 200.0,
          structural_threshold = 8.0, edge_threshold = 10.0, color_threshold = 200.0\<rparr>),
       (''ultra'', \<lparr>pixel_threshold = 10.0, histogram_threshold = 100.0,
          structural_threshold = 5.0, edge_threshold = 8.0, color_threshold = 100.0\<rparr>)],
     INTENSITY_THRESHOLDS = map_of [
       (''low'', 15.0), (''medium'', 25.0), (''high'', 40.0), (''ultra'', 60.0)],
     MIN_FRAME_COUNT = 5,
     MAX_FRAME_PERCENTAGE = 0.5 \<rparr>"

subsection \<open>Sampling planner\<close>

text \<open>
  The strategy labels of the source are non-ASCII string literals; each distinct literal
  is a constructor here. The buckets \<open>duration \<le> 600\<close> and \<open>duration > 3600\<close> carry
  the same literal in the source, hence the same constructor.
\<close>

datatype strategy =
    Strategy_ultra_short_dense
  | Strategy_short_dense
  | Strategy_medium_short_dense
  | Strategy_medium_standard
  | Strategy_long_dense
  | Strategy_very_long
  | Strategy_30_minutes
  | Strategy_1_hour

record sampling_plan =
  optimal_frames :: int
  frame_interval :: int
  real_time_interval :: real
  strategy :: strategy

definition Async_interval_and_strategy :: "real \<Rightarrow> real \<times> strategy" where
  "Async_interval_and_strategy duration =
     (if duration \<le> DURATION_ULTRA_SHORT AsyncFrameExtractorConfig then
        (INTERVAL_ULTRA_SHORT AsyncFrameExtractorConfig, Strategy_ultra_short_dense)
      else if duration \<le> DURATION_SHORT AsyncFrameExtractorConfig then
        (INTERVAL_SHORT AsyncFrameExtractorConfig, Strategy_short_dense)
      else if duration \<le> DURATION_MEDIUM_SHORT AsyncFrameExtractorConfig then
        (INTERVAL_MEDIUM_SHORT AsyncFrameExtractorConfig, Strategy_medium_short_dense)
      else if duration \<le> DURATION_MEDIUM AsyncFrameExtractorConfig then
        (INTERVAL_MEDIUM AsyncFrameExtractorConfig, Strategy_medium_standard)
      else if duration \<le> DURATION_LONG AsyncFrameExtractorConfig then
        (INTERVAL_LONG AsyncFrameExtractorConfig, Strategy_long_dense)
      else if duration \<le> DURATION_VERY_LONG AsyncFrameExtractorConfig then
        (INTERVAL_VERY_LONG AsyncFrameExtractorConfig, Strategy_very_long)
      else if duration \<le> DURATION_EXTRA_LONG AsyncFrameExtractorConfig then
        (INTERVAL_EXTRA_LONG AsyncFrameExtractorConfig, Strategy_30_minutes)
      else if duration \<le> DURATION_HOUR AsyncFrameExtractorConfig then
        (INTERVAL_HOUR AsyncFrameExtractorConfig, Strategy_1_hour)
      else
        (INTERVAL_SUPER_LONG AsyncFrameExtractorConfig, Strategy_very_long))"

definition Async_fps_factor :: "real \<Rightarrow> real" where
  "Async_fps_factor fps =
     (if fps < FPS_LOW AsyncFrameExtractorConfig then FPS_FACTOR_LOW AsyncFrameExtractorConfig
      else if fps > FPS_HIGH AsyncFrameExtractorConfig then FPS_FACTOR_HIGH AsyncFrameExtractorConfig
      else if fps > FPS_STANDARD AsyncFrameExtractorConfig
        then FPS_FACTOR_STANDARD_HIGH AsyncFrameExtractorConfig
      else 1.0)"

text \<open>
  \<^verbatim>\<open>AsyncFrameExtractor.calculate_optimal_frame_count\<close>. The only operation of the
  body that can raise is \<^verbatim>\<open>total_frames // optimal_frames\<close>.
\<close>

definition Async_calculate_optimal_frame_count ::
  "real \<Rightarrow> real \<Rightarrow> int \<Rightarrow> py_error + sampling_plan" where
  "Async_calculate_optimal_frame_count duration fps total_frames =
     (let (interval, strategy) = Async_interval_and_strategy duration;
          optimal_frames0 = max (MIN_FRAME_COUNT AsyncFrameExtractorConfig)
                                (py_int (duration / interval));
          fps_factor = Async_fps_factor fps;
          optimal_frames1 = py_int (real_of_int optimal_frames0 * fps_factor);
          max_allowed = min total_frames
             (py_int (real_of_int total_frames * MAX_FRAME_PERCENTAGE AsyncFrameExtractorConfig));
          optimal_frames = min optimal_frames1 max_allowed
      in case py_floordiv total_frames optimal_frames of
           Inl e \<Rightarrow> Inl e
         | Inr q \<Rightarrow>
             Inr \<lparr> optimal_frames = optimal_frames,
                   frame_interval = max 1 q,
                   real_time_interval =
                     (if optimal_frames > 0 then duration / real_of_int optimal_frames
                      else interval),
                   strategy = strategy \<rparr>)"


text \<open>
  The frame count after the minimum and the frame-rate correction, before the cap by the
  total frame count (the value of \<^verbatim>\<open>optimal_frames\<close> after line 552).
\<close>

definition Async_corrected :: "real \<Rightarrow> real \<Rightarrow> int" where
  "Async_corrected duration fps =
     py_int (real_of_int (max (MIN_FRAME_COUNT AsyncFrameExtractorConfig)
        (py_int (duration / fst (Async_interval_and_strategy duration)))) * Async_fps_factor fps)"

subsection \<open>Frames and the image library\<close>

text \<open>
  A decoded frame is a value of an abstract type \<open>'f\<close>; the OpenCV and NumPy
  operations the methods call are the fields of \<open>image_ops\<close>. The shape of a frame is
  (height, width) for a gray image and (height, width, channels) for a colour image.
  \<open>mean_absdiff g1 g2\<close> stands for \<^verbatim>\<open>np.mean(cv2.absdiff(g1, g2))\<close> and
  \<open>hist_chisqr g1 g2\<close> for the chi-square comparison of the two 256-bin histograms.
\<close>

record 'f image_ops =
  shape :: "'f \<Rightarrow> nat \<times> nat \<times> nat option"
  cvtColor_BGR2GRAY :: "'f \<Rightarrow> 'f"
  Laplacian_var :: "'f \<Rightarrow> real"
  np_mean :: "'f \<Rightarrow> real"
  np_std :: "'f \<Rightarrow> real"
  cv2_resize :: "'f \<Rightarrow> nat \<times> nat \<Rightarrow> 'f"
  mean_absdiff :: "'f \<Rightarrow> 'f \<Rightarrow> real"
  hist_chisqr :: "'f \<Rightarrow> 'f \<Rightarrow> real"

text \<open>\<^verbatim>\<open>cv2.cvtColor(frame, cv2.COLOR_BGR2GRAY) if len(frame.shape) == 3 else frame\<close>\<close>

definition to_gray :: "'f image_ops \<Rightarrow> 'f \<Rightarrow> 'f" where
  "to_gray cv frame =
     (if snd (snd (shape cv frame)) \<noteq> None then cvtColor_BGR2GRAY cv frame else frame)"

subsection \<open>Frame quality\<close>

record quality_metrics =
  sharpness :: real
  brightness :: real
  contrast :: real
  quality_score :: real

definition Async_calculate_frame_quality :: "'f image_ops \<Rightarrow> 'f \<Rightarrow> quality_metrics" where
  "Async_calculate_frame_quality cv frame =
     (let gray = to_gray cv frame;
          sharpness = Laplacian_var cv gray;
          brightness = np_mean cv gray;
          contrast = np_std cv gray;
          quality_score =
            sharpness * QUALITY_WEIGHT_SHARPNESS AsyncFrameExtractorConfig +
            contrast * QUALITY_WEIGHT_CONTRAST AsyncFrameExtractorConfig +
            min (brightness / 128.0) 1.0 * QUALITY_WEIGHT_BRIGHTNESS AsyncFrameExtractorConfig
      in \<lparr> sharpness = sharpness, brightness = brightness, contrast = contrast,
            quality_score = quality_score \<rparr>)"

subsection \<open>Scene change detection and retention\<close>

record scene_result =
  is_scene_change :: bool
  change_intensity :: real
  pixel_difference :: real
  histogram_difference :: real

text \<open>\<^verbatim>\<open>d.get(key, default)\<close>\<close>

definition dict_get :: "('k \<rightharpoonup> 'v) \<Rightarrow> 'k \<Rightarrow> 'v \<Rightarrow> 'v" where
  "dict_get d k dflt = (case d k of Some v \<Rightarrow> v | None \<Rightarrow> dflt)"

text \<open>\<^verbatim>\<open>d[key]\<close> for a key that the literal dictionary holds.\<close>

definition dict_item :: "('k \<rightharpoonup> 'v) \<Rightarrow> 'k \<Rightarrow> 'v" where
  "dict_item d k = the (d k)"

definition Async_detect_scene_change ::
  "'f image_ops \<Rightarrow> 'f \<Rightarrow> 'f \<Rightarrow> string \<Rightarrow> scene_result" where
  "Async_detect_scene_change cv frame1 frame2 sensitivity =
     (let gray1 = to_gray cv frame1;
          gray2 = to_gray cv frame2;
          gray2 = (if shape cv gray1 \<noteq> shape cv gray2
                   then cv2_resize cv gray2 (fst (snd (shape cv gray1)), fst (shape cv gray1))
                   else gray2);
          pixel_diff = mean_absdiff cv gray1 gray2;
          hist_diff = hist_chisqr cv gray1 gray2;
          thresholds = dict_get (SCENE_THRESHOLDS AsyncFrameExtractorConfig) sensitivity
                         (dict_item (SCENE_THRESHOLDS AsyncFrameExtractorConfig) ''high'');
          pixel_change = (pixel_diff > pixel_threshold thresholds);
          hist_change = (hist_diff > histogram_threshold thresholds);
          is_scene_change = (pixel_change \<or> hist_change);
          change_intensity =
            pixel_diff / pixel_threshold thresholds * 0.6 +
            hist_diff / histogram_threshold thresholds * 0.4
      in \<lparr> is_scene_change = is_scene_change, change_intensity = change_intensity,
            pixel_difference = pixel_diff, histogram_difference = hist_diff \<rparr>)"

text \<open>\<^verbatim>\<open>AsyncFrameExtractor._should_keep_frame\<close>; \<open>previous_frame\<close> is \<open>None\<close>
  for the first candidate of a stream.\<close>

definition Async_should_keep_frame ::
  "'f image_ops \<Rightarrow> 'f \<Rightarrow> 'f option \<Rightarrow> quality_metrics \<Rightarrow> real \<Rightarrow> real \<Rightarrow> string \<Rightarrow> bool" where
  "Async_should_keep_frame cv frame previous_frame quality_metrics sharpness_threshold
       similarity_threshold scene_sensitivity =
     (case previous_frame of
        None \<Rightarrow> True
      | Some prev \<Rightarrow>
          if sharpness quality_metrics < sharpness_threshold then False
          else
            let scene_result = Async_detect_scene_change cv prev frame scene_sensitivity in
            if is_scene_change scene_result then
              let intensity_threshold =
                    dict_get (INTENSITY_THRESHOLDS AsyncFrameExtractorConfig) scene_sensitivity 40.0
              in change_intensity scene_result \<ge> intensity_threshold
            else pixel_difference scene_result \<ge> similarity_threshold)"

text \<open>The four keys of \<^verbatim>\<open>SCENE_THRESHOLDS\<close> and \<^verbatim>\<open>INTENSITY_THRESHOLDS\<close>.\<close>

definition sensitivity_keys :: "string list" where
  "sensitivity_keys = [''low'', ''medium'', ''high'', ''ultra'']"

subsection \<open>The non-concurrent variant\<close>

text \<open>
  \<^verbatim>\<open>basic_frame_extractor_optimized.py\<close> declares its own configuration class
  \<^verbatim>\<open>FrameExtractorConfig\<close> and its own methods of
  \<^verbatim>\<open>OptimizedFrameExtractor\<close>; they are embedded from that file, one by one.
\<close>

definition FrameExtractorConfig :: extractor_config where
  "FrameExtractorConfig = \<lparr>
     DEFAULT_MAX_BASE_FRAMES = 80,
     INTERVAL_ULTRA_SHORT = 0.2,
     INTERVAL_SHORT = 0.5,
     INTERVAL_MEDIUM_SHORT = 0.8,
     INTERVAL_MEDIUM = 1.0,
     INTERVAL_LONG = 1.5,
     INTERVAL_VERY_LONG = 2.0,
     INTERVAL_EXTRA_LONG = 2.5,
     INTERVAL_HOUR = 3.0,
     INTERVAL_SUPER_LONG = 4.0,
     DURATION_ULTRA_SHORT = 3,
     DURATION_SHORT = 10,
     DURATION_MEDIUM_SHORT = 30,
     DURATION_MEDIUM = 120,
     DURATION_LONG = 300,
     DURATION_VERY_LONG = 600,
     DURATION_EXTRA_LONG = 1800,
     DURATION_HOUR = 3600,
     FPS_LOW = 15,
     FPS_STANDARD = 30,
     FPS_HIGH = 60,
     FPS_FACTOR_LOW = 0.8,
     FPS_FACTOR_STANDARD_HIGH = 1.15,
     FPS_FACTOR_HIGH = 1.3,
     QUALITY_WEIGHT_SHARPNESS = 0.5,
     QUALITY_WEIGHT_CONTRAST = 0.3,
     QUALITY_WEIGHT_BRIGHTNESS = 0.2,
     SCENE_THRESHOLDS = map_of [
       (''low'', \<lparr>pixel_threshold = 40.0, histogram_threshold = 1000.0,
          structural_threshold = 15.0, edge_threshold = 25.0, color_threshold = 800.0\<rparr>),
       (''medium'', \<lparr>pixel_threshold = 25.0, histogram_threshold = 500.0,
          structural_threshold = 10.0, edge_threshold = 15.0, color_threshold = 400.0\<rparr>),
       (''high'', \<lparr>pixel_threshold = 15.0, histogram_threshold = 200.0,
          structural_threshold = 8.0, edge_threshold = 10.0, color_threshold = 200.0\<rparr>),
       (''ultra'', \<lparr>pixel_threshold = 10.0, histogram_threshold = 100.0,
          structural_threshold = 5.0, edge_threshold = 8.0, color_threshold = 100.0\<rparr>)],
     INTENSITY_THRESHOLDS = map_of [
       (''low'', 15.0), (''medium'', 25.0), (''high'', 40.0), (''ultra'', 60.0)],
     MIN_FRAME_COUNT = 5,
     MAX_FRAME_PERCENTAGE = 0.5 \<rparr>"

definition Optimized_interval_and_strategy :: "real \<Rightarrow> real \<times> strategy" where
  "Optimized_interval_and_strategy duration =
     (if duration \<le> DURATION_ULTRA_SHORT FrameExtractorConfig then
        (INTERVAL_ULTRA_SHORT FrameExtractorConfig, Strategy_ultra_short_dense)
      else if duration \<le> DURATION_SHORT FrameExtractorConfig then
        (INTERVAL_SHORT FrameExtractorConfig, Strategy_short_dense)
      else if duration \<le> DURATION_MEDIUM_SHORT FrameExtractorConfig then
        (INTERVAL_MEDIUM_SHORT FrameExtractorConfig, Strategy_medium_short_dense)
      else if duration \<le> DURATION_MEDIUM FrameExtractorConfig then
        (INTERVAL_MEDIUM FrameExtractorConfig, Strategy_medium_standard)
      else if duration \<le> DURATION_LONG FrameExtractorConfig then
        (INTERVAL_LONG FrameExtractorConfig, Strategy_long_dense)
      else if duration \<le> DURATION_VERY_LONG FrameExtractorConfig then
        (INTERVAL_VERY_LONG FrameExtractorConfig, Strategy_very_long)
      else if duration \<le> DURATION_EXTRA_LONG FrameExtractorConfig then
        (INTERVAL_EXTRA_LONG FrameExtractorConfig, Strategy_30_minutes)
      else if duration \<le> DURATION_HOUR FrameExtractorConfig then
        (INTERVAL_HOUR FrameExtractorConfig, Strategy_1_hour)
      else
        (INTERVAL_SUPER_LONG FrameExtractorConfig, Strategy_very_long))"

definition Optimized_fps_factor :: "real \<Rightarrow> real" where
  "Optimized_fps_factor fps =
     (if fps < FPS_LOW FrameExtractorConfig then FPS_FACTOR_LOW FrameExtractorConfig
      else if fps > FPS_HIGH FrameExtractorConfig then FPS_FACTOR_HIGH FrameExtractorConfig
      else if fps > FPS_STANDARD FrameExtractorConfig
        then FPS_FACTOR_STANDARD_HIGH FrameExtractorConfig
      else 1.0)"

definition Optimized_calculate_optimal_frame_count ::
  "real \<Rightarrow> real \<Rightarrow> int \<Rightarrow> py_error + sampling_plan" where
  "Optimized_calculate_optimal_frame_count duration fps total_frames =
     (let (interval, strategy) = Optimized_interval_and_strategy duration;
          optimal_frames0 = max (MIN_FRAME_COUNT FrameExtractorConfig)
                                (py_int (duration / interval));
          fps_factor = Optimized_fps_factor fps;
          optimal_frames1 = py_int (real_of_int optimal_frames0 * fps_factor);
          max_allowed = min total_frames
             (py_int (real_of_int total_frames * MAX_FRAME_PERCENTAGE FrameExtractorConfig));
          optimal_frames = min optimal_frames1 max_allowed
      in case py_floordiv total_frames optimal_frames of
           Inl e \<Rightarrow> Inl e
         | Inr q \<Rightarrow>
             Inr \<lparr> optimal_frames = optimal_frames,
                   frame_interval = max 1 q,
                   real_time_interval =
                     (if optimal_frames > 0 then duration / real_of_int optimal_frames
                      else interval),
                   strategy = strategy \<rparr>)"

definition Optimized_calculate_frame_quality :: "'f image_ops \<Rightarrow> 'f \<Rightarrow> quality_metrics" where
  "Optimized_calculate_frame_quality cv frame =
     (let gray = to_gray cv frame;
          sharpness = Laplacian_var cv gray;
          brightness = np_mean cv gray;
          contrast = np_std cv gray;
          quality_score =
            sharpness * QUALITY_WEIGHT_SHARPNESS FrameExtractorConfig +
            contrast * QUALITY_WEIGHT_CONTRAST FrameExtractorConfig +
            min (brightness / 128.0) 1.0 * QUALITY_WEIGHT_BRIGHTNESS FrameExtractorConfig
      in \<lparr> sharpness = sharpness, brightness = brightness, contrast = contrast,
            quality_score = quality_score \<rparr>)"

definition Optimized_detect_scene_change ::
  "'f image_ops \<Rightarrow> 'f \<Rightarrow> 'f \<Rightarrow> string \<Rightarrow> scene_result" where
  "Optimized_detect_scene_change cv frame1 frame2 sensitivity =
     (let gray1 = to_gray cv frame1;
          gray2 = to_gray cv frame2;
          gray2 = (if shape cv gray1 \<noteq> shape cv gray2
                   then cv2_resize cv gray2 (fst (snd (shape cv gray1)), fst (shape cv gray1))
                   else gray2);
          pixel_diff = mean_absdiff cv gray1 gray2;
          hist_diff = hist_chisqr cv gray1 gray2;
          thresholds = dict_get (SCENE_THRESHOLDS FrameExtractorConfig) sensitivity
                         (dict_item (SCENE_THRESHOLDS FrameExtractorConfig) ''high'');
          pixel_change = (pixel_diff > pixel_threshold thresholds);
          hist_change = (hist_diff > histogram_threshold thresholds);
          is_scene_change = (pixel_change \<or> hist_change);
          change_intensity =
            pixel_diff / pixel_threshold thresholds * 0.6 +
            hist_diff / histogram_threshold thresholds * 0.4
      in \<lparr> is_scene_change = is_scene_change, change_intensity = change_intensity,
            pixel_difference = pixel_diff, histogram_difference = hist_diff \<rparr>)"

subsection \<open>Device performance detector\<close>

text \<open>
  \<^verbatim>\<open>DevicePerformanceDetector\<close>. The object holds what its constructor read;
  \<^verbatim>\<open>psutil.cpu_count\<close> returns \<open>None\<close> when the count is undetermined.
\<close>

record detector =
  cpu_count :: "int option"
  logical_cpu_count :: "int option"
  total_memory :: int
  available_memory :: int

text \<open>
  The host as \<^verbatim>\<open>get_performance_profile\<close> queries it: each of the three
  \<^verbatim>\<open>psutil\<close> calls either returns its reading or raises.
\<close>

record memory_info =
  mem_available :: int
  mem_percent :: real

record host_telemetry =
  psutil_cpu_percent :: "py_error + real"
  psutil_virtual_memory :: "py_error + memory_info"
  psutil_disk_usage_free :: "py_error + int"

record concurrency_config =
  max_workers :: int
  batch_size :: int
  memory_buffer_mb :: int
  io_workers :: int

text \<open>The profile dictionary; its top-level key \<^verbatim>\<open>max_workers\<close> is the field
  \<open>profile_max_workers\<close>.\<close>

record performance_profile =
  cpu_cores_physical :: "int option"
  cpu_cores_logical :: "int option"
  cpu_usage_percent :: real
  memory_total_gb :: real
  memory_available_gb :: real
  memory_usage_percent :: real
  disk_free_gb :: real
  performance_level :: string
  concurrency_config :: concurrency_config
  recommended_batch_size :: int
  profile_max_workers :: int

text \<open>\<^verbatim>\<open>round(x, 2)\<close>, on the reals: to the nearest hundredth, a tie to the even one.\<close>

definition py_round2 :: "real \<Rightarrow> real" where
  "py_round2 x =
     (let y = x * 100; f = \<lfloor>y\<rfloor>; d = y - real_of_int f;
          r = (if d < 1/2 then f else if d > 1/2 then f + 1 else if even f then f else f + 1)
      in real_of_int r / 100)"

text \<open>\<^verbatim>\<open>_calculate_performance_level\<close>: comparing \<open>None\<close> with a number raises.\<close>

definition calculate_performance_level :: "detector \<Rightarrow> py_error + string" where
  "calculate_performance_level self =
     (let memory_gb = real_of_int (total_memory self) / (1024 ^ 3) in
      case cpu_count self of
        None \<Rightarrow> Inl TypeError
      | Some cores \<Rightarrow>
          Inr (if cores \<ge> 8 \<and> memory_gb \<ge> 16 then ''high''
               else if cores \<ge> 4 \<and> memory_gb \<ge> 8 then ''medium''
               else if cores \<ge> 2 \<and> memory_gb \<ge> 4 then ''low''
               else ''minimal''))"

text \<open>\<^verbatim>\<open>_get_concurrency_config\<close>: the whole table is built before the lookup.\<close>

definition get_concurrency_config :: "detector \<Rightarrow> string \<Rightarrow> py_error + concurrency_config" where
  "get_concurrency_config self level =
     (case cpu_count self of
        None \<Rightarrow> Inl TypeError
      | Some cores \<Rightarrow>
          let configs = map_of [
                (''high'', \<lparr> max_workers = min (cores * 2) 16, batch_size = 8,
                   memory_buffer_mb = 2048, io_workers = 4 \<rparr>),
                (''medium'', \<lparr> max_workers = min (cores + 2) 8, batch_size = 4,
                   memory_buffer_mb = 1024, io_workers = 2 \<rparr>),
                (''low'', \<lparr> max_workers = min cores 4, batch_size = 2,
                   memory_buffer_mb = 512, io_workers = 1 \<rparr>),
                (''minimal'', \<lparr> max_workers = 2, batch_size = 1,
                   memory_buffer_mb = 256, io_workers = 1 \<rparr>)]
          in Inr (dict_get configs level (dict_item configs ''low'')))"

text \<open>\<^verbatim>\<open>_get_default_profile\<close>\<close>

definition get_default_profile :: performance_profile where
  "get_default_profile = \<lparr>
     cpu_cores_physical = Some 4,
     cpu_cores_logical = Some 8,
     cpu_usage_percent = 50.0,
     memory_total_gb = 8.0,
     memory_available_gb = 4.0,
     memory_usage_percent = 50.0,
     disk_free_gb = 10.0,
     performance_level = ''medium'',
     concurrency_config = \<lparr> max_workers = 4, batch_size = 2,
        memory_buffer_mb = 512, io_workers = 1 \<rparr>,
     recommended_batch_size = 2,
     profile_max_workers = 4 \<rparr>"

text \<open>The body of the \<^verbatim>\<open>try\<close> block of \<^verbatim>\<open>get_performance_profile\<close>.\<close>

definition try_performance_profile ::
  "detector \<Rightarrow> host_telemetry \<Rightarrow> py_error + performance_profile" where
  "try_performance_profile self host =
     (case psutil_cpu_percent host of Inl e \<Rightarrow> Inl e | Inr cpu_percent \<Rightarrow>
      case psutil_virtual_memory host of Inl e \<Rightarrow> Inl e | Inr mem \<Rightarrow>
      case psutil_disk_usage_free host of Inl e \<Rightarrow> Inl e | Inr disk_free \<Rightarrow>
      case calculate_performance_level self of Inl e \<Rightarrow> Inl e | Inr level \<Rightarrow>
      case get_concurrency_config self level of Inl e \<Rightarrow> Inl e
      | Inr config \<Rightarrow>
          Inr \<lparr> cpu_cores_physical = cpu_count self,
                cpu_cores_logical = logical_cpu_count self,
                cpu_usage_percent = cpu_percent,
                memory_total_gb = py_round2 (real_of_int (total_memory self) / (1024 ^ 3)),
                memory_available_gb =
                  py_round2 (real_of_int (mem_available mem) / (1024 ^ 3)),
                memory_usage_percent = mem_percent mem,
                disk_free_gb = py_round2 (real_of_int disk_free / (1024 ^ 3)),
                performance_level = level,
                concurrency_config = config,
                recommended_batch_size = batch_size config,
                profile_max_workers = max_workers config \<rparr>)"

text \<open>\<^verbatim>\<open>get_performance_profile\<close>: \<^verbatim>\<open>except Exception\<close> turns every raise of
  the block into the default profile.\<close>

definition get_performance_profile :: "detector \<Rightarrow> host_telemetry \<Rightarrow> performance_profile" where
  "get_performance_profile self host =
     (case try_performance_profile self host of
        Inr profile \<Rightarrow> profile
      | Inl e \<Rightarrow> get_default_profile)"

text \<open>The telemetry query raises: one of the three readings is an exception.\<close>

definition telemetry_raises :: "host_telemetry \<Rightarrow> bool" where
  "telemetry_raises host =
     (isl (psutil_cpu_percent host) \<or> isl (psutil_virtual_memory host)
      \<or> isl (psutil_disk_usage_free host))"

subsection \<open>Paths and file names\<close>

text \<open>\<^verbatim>\<open>s.rfind(c)\<close>: the index of the last occurrence, \<open>-1\<close> when there is none.\<close>

fun rfind :: "char \<Rightarrow> string \<Rightarrow> int" where
  "rfind c [] = -1"
| "rfind c (x # xs) =
     (let r = rfind c xs in if r \<ge> 0 then r + 1 else if x = c then 0 else -1)"

text \<open>
  \<^verbatim>\<open>os.path.splitext\<close> (POSIX): the extension starts at the last dot of the last
  path component, unless only dots precede it there.
\<close>

definition splitext :: "string \<Rightarrow> string \<times> string" where
  "splitext p =
     (let sepIndex = rfind (CHR ''/'') p;
          dotIndex = rfind (CHR ''.'') p
      in if dotIndex > sepIndex \<and>
            list_ex (\<lambda>ch. ch \<noteq> CHR ''.'')
              (take (nat (dotIndex - (sepIndex + 1))) (drop (nat (sepIndex + 1)) p))
         then (take (nat dotIndex) p, drop (nat dotIndex) p)
         else (p, []))"

text \<open>\<^verbatim>\<open>os.path.join(a, b)\<close> (POSIX) for two components.\<close>

definition path_join :: "string \<Rightarrow> string \<Rightarrow> string" where
  "path_join a b =
     (if b \<noteq> [] \<and> hd b = CHR ''/'' then b
      else if a = [] \<or> last a = CHR ''/'' then a @ b
      else a @ ''/'' @ b)"

text \<open>The decimal digits of a natural number, and the format \<^verbatim>\<open>{i:04d}\<close>.\<close>

fun decimal :: "nat \<Rightarrow> string" where
  "decimal n =
     (if n < 10 then [''0123456789'' ! n]
      else decimal (n div 10) @ [''0123456789'' ! (n mod 10)])"

definition format_04d :: "nat \<Rightarrow> string" where
  "format_04d i = replicate (4 - length (decimal i)) (CHR ''0'') @ decimal i"

subsection \<open>Frame records and the file system\<close>

record frame_info =
  path :: string
  filename :: string
  frame_number :: int
  timestamp :: real
  extracted_index :: int
  quality_metrics :: quality_metrics
  source_type :: string
  source_file :: string

text \<open>
  The file system as the batch finalisation sees it: the set of paths that exist, and
  the log of the operations performed on it. The operations themselves succeed; a
  failing one is caught and skipped by the source.
\<close>

datatype fs_op = Remove string | Rename string string

record fs_state =
  files :: "string set"
  ops :: "fs_op list"

definition os_remove :: "string \<Rightarrow> fs_state \<Rightarrow> fs_state" where
  "os_remove p st = st\<lparr> files := files st - {p}, ops := ops st @ [Remove p] \<rparr>"

definition os_rename :: "string \<Rightarrow> string \<Rightarrow> fs_state \<Rightarrow> fs_state" where
  "os_rename old new st =
     st\<lparr> files := insert new (files st - {old}), ops := ops st @ [Rename old new] \<rparr>"

subsection \<open>Global cap and re-indexing of the batch orchestrator\<close>

text \<open>Python slice bounds: a negative index counts from the end, and both are clipped.\<close>

definition slice_index :: "'a list \<Rightarrow> int \<Rightarrow> nat" where
  "slice_index xs m =
     (if m < 0 then nat (max 0 (int (length xs) + m)) else min (nat m) (length xs))"

text \<open>
  \<^verbatim>\<open>all_frame_paths.sort(key=lambda x: x['quality_metrics']['quality_score'],
  reverse=True)\<close>: a stable sort, descending in the key.
\<close>

definition sort_by_quality_desc :: "frame_info list \<Rightarrow> frame_info list" where
  "sort_by_quality_desc all_frame_paths =
     sort_key (\<lambda>x. - quality_score (quality_metrics x)) all_frame_paths"

text \<open>The loop that deletes the files of the excess records.\<close>

fun delete_files :: "frame_info list \<Rightarrow> fs_state \<Rightarrow> fs_state" where
  "delete_files [] st = st"
| "delete_files (frame_info # rest) st =
     delete_files rest
       (if path frame_info \<in> files st then os_remove (path frame_info) st else st)"

text \<open>
  Lines 962 to 975 of \<^verbatim>\<open>process_multiple_files_async\<close>; \<open>kw_max_base_frames\<close>
  is the entry of the keyword arguments, if any.
\<close>

definition Async_enforce_cap ::
  "int option \<Rightarrow> frame_info list \<Rightarrow> fs_state \<Rightarrow> frame_info list \<times> fs_state" where
  "Async_enforce_cap kw_max_base_frames all_frame_paths st =
     (let max_base_frames =
            (case kw_max_base_frames of Some m \<Rightarrow> m
             | None \<Rightarrow> DEFAULT_MAX_BASE_FRAMES AsyncFrameExtractorConfig)
      in if int (length all_frame_paths) > max_base_frames then
           let sorted_paths = sort_by_quality_desc all_frame_paths;
               k = slice_index sorted_paths max_base_frames
           in (take k sorted_paths, delete_files (drop k sorted_paths) st)
         else (all_frame_paths, st))"

text \<open>The name and the path that the renaming loop computes for the record at index \<open>i\<close>.\<close>

definition new_filename :: "nat \<Rightarrow> frame_info \<Rightarrow> string" where
  "new_filename i frame_info =
     (let clean_name = fst (splitext (source_file frame_info))
      in ''frame_'' @ format_04d i @ ''_'' @ source_type frame_info @ ''_'' @ clean_name
           @ ''.jpg'')"

definition new_path :: "string \<Rightarrow> nat \<Rightarrow> frame_info \<Rightarrow> string" where
  "new_path output_dir i frame_info = path_join output_dir (new_filename i frame_info)"

text \<open>
  \<^verbatim>\<open>_rename_frames_async\<close>: the loop over \<^verbatim>\<open>enumerate(all_frame_paths)\<close>,
  from index \<open>i\<close> on. The records are updated in place; the function returns them.
\<close>

fun rename_files ::
  "string \<Rightarrow> nat \<Rightarrow> frame_info list \<Rightarrow> fs_state \<Rightarrow> frame_info list \<times> fs_state" where
  "rename_files output_dir i [] st = ([], st)"
| "rename_files output_dir i (frame_info # rest) st =
     (let old_path = path frame_info;
          new_name = new_filename i frame_info;
          new_p = path_join output_dir new_name
      in if old_path \<noteq> new_p \<and> old_path \<in> files st then
           let st1 = (if new_p \<in> files st then os_remove new_p st else st);
               st2 = os_rename old_path new_p st1;
               renamed = frame_info\<lparr> path := new_p, filename := new_name,
                            extracted_index := int i \<rparr>;
               (rest', st3) = rename_files output_dir (Suc i) rest st2
           in (renamed # rest', st3)
         else
           let (rest', st3) = rename_files output_dir (Suc i) rest st
           in (frame_info # rest', st3))"

definition Async_rename_frames ::
  "string \<Rightarrow> frame_info list \<Rightarrow> fs_state \<Rightarrow> frame_info list \<times> fs_state" where
  "Async_rename_frames output_dir all_frame_paths st = rename_files output_dir 0 all_frame_paths st"


text \<open>
  \<^verbatim>\<open>process_mixed_inputs\<close> of the non-concurrent variant has the same two steps
  inline (lines 631 to 662); its cap reads the default of its own configuration class,
  and its renaming loop is the loop \<open>rename_files\<close>, statement by statement.
\<close>

definition Optimized_enforce_cap ::
  "int option \<Rightarrow> frame_info list \<Rightarrow> fs_state \<Rightarrow> frame_info list \<times> fs_state" where
  "Optimized_enforce_cap kw_max_base_frames all_frame_paths st =
     (let max_base_frames =
            (case kw_max_base_frames of Some m \<Rightarrow> m
             | None \<Rightarrow> DEFAULT_MAX_BASE_FRAMES FrameExtractorConfig)
      in if int (length all_frame_paths) > max_base_frames then
           let sorted_paths = sort_by_quality_desc all_frame_paths;
               k = slice_index sorted_paths max_base_frames
           in (take k sorted_paths, delete_files (drop k sorted_paths) st)
         else (all_frame_paths, st))"

definition Optimized_rename_frames ::
  "string \<Rightarrow> frame_info list \<Rightarrow> fs_state \<Rightarrow> frame_info list \<times> fs_state" where
  "Optimized_rename_frames output_dir all_frame_paths st =
     rename_files output_dir 0 all_frame_paths st"

subsection \<open>Notions used in the statements\<close>

text \<open>The record at index \<open>i\<close> after the renaming loop has rewritten it.\<close>

definition renamed :: "string \<Rightarrow> nat \<Rightarrow> frame_info \<Rightarrow> frame_info" where
  "renamed output_dir i frame_info =
     frame_info\<lparr> path := new_path output_dir i frame_info,
                 filename := new_filename i frame_info,
                 extracted_index := int i \<rparr>"

fun renamed_from :: "string \<Rightarrow> nat \<Rightarrow> frame_info list \<Rightarrow> frame_info list" where
  "renamed_from output_dir i [] = []"
| "renamed_from output_dir i (r # rs) = renamed output_dir i r # renamed_from output_dir (Suc i) rs"

text \<open>
  A list on which the renaming loop, run from index \<open>i\<close> in a file system holding the
  paths \<open>existing\<close>, finds nothing to do: every record either sits at the path of its
  position or names a file that does not exist.
\<close>

fun settled_from :: "string \<Rightarrow> nat \<Rightarrow> frame_info list \<Rightarrow> string set \<Rightarrow> bool" where
  "settled_from output_dir i [] existing = True"
| "settled_from output_dir i (r # rs) existing =
     ((path r = new_path output_dir i r \<or> path r \<notin> existing) \<and>
      settled_from output_dir (Suc i) rs existing)"

text \<open>A list whose records, from index \<open>i\<close> on, carry the file name and the index of
  their position.\<close>

fun names_match_from :: "nat \<Rightarrow> frame_info list \<Rightarrow> bool" where
  "names_match_from i [] = True"
| "names_match_from i (r # rs) =
     (filename r = new_filename i r \<and> extracted_index r = int i \<and>
      names_match_from (Suc i) rs)"

text \<open>The cap in force for a call.\<close>

definition effective_cap :: "int option \<Rightarrow> int" where
  "effective_cap kw_max_base_frames =
     (case kw_max_base_frames of Some m \<Rightarrow> m
      | None \<Rightarrow> DEFAULT_MAX_BASE_FRAMES AsyncFrameExtractorConfig)"

subsection \<open>Example inputs\<close>

text \<open>Two gray frames, numbered 0 and 2: frame 2 is the sharper one.\<close>

definition example_ops :: "nat image_ops" where
  "example_ops = \<lparr> shape = (\<lambda>f. (90, 160, None)), cvtColor_BGR2GRAY = (\<lambda>f. f),
     Laplacian_var = (\<lambda>f. if f = 0 then 100 else 300), np_mean = (\<lambda>f. 64),
     np_std = (\<lambda>f. 10), cv2_resize = (\<lambda>f s. f),
     mean_absdiff = (\<lambda>f g. if f = g then 0 else 20),
     hist_chisqr = (\<lambda>f g. if f = g then 0 else 150) \<rparr>"

text \<open>A host with four cores and 8 GiB of memory whose disk query raises.\<close>

definition example_detector :: detector where
  "example_detector = \<lparr> cpu_count = Some 4, logical_cpu_count = Some 8,
     total_memory = 8589934592, available_memory = 4294967296 \<rparr>"

definition example_failing_host :: host_telemetry where
  "example_failing_host = \<lparr> psutil_cpu_percent = Inr 12.5,
     psutil_virtual_memory = Inr \<lparr> mem_available = 4294967296, mem_percent = 50.0 \<rparr>,
     psutil_disk_usage_free = Inl OSError \<rparr>"

text \<open>Three frames of three videos, appended in the order a, b, c, with quality scores
  1, 2 and 3, and a task directory that holds their files.\<close>

definition example_frame :: "string \<Rightarrow> real \<Rightarrow> frame_info" where
  "example_frame name q = \<lparr> path = ''out/old_'' @ name @ ''.jpg'',
     filename = ''old_'' @ name @ ''.jpg'', frame_number = 0, timestamp = 0,
     extracted_index = 0,
     quality_metrics = \<lparr> sharpness = 2 * q, brightness = 0, contrast = 0,
        quality_score = q \<rparr>,
     source_type = ''video'', source_file = name @ ''.mp4'' \<rparr>"

definition example_frames :: "frame_info list" where
  "example_frames = [example_frame ''a'' 1, example_frame ''b'' 2, example_frame ''c'' 3]"

definition example_fs :: fs_state where
  "example_fs = \<lparr> files = {''out/old_a.jpg'', ''out/old_b.jpg'', ''out/old_c.jpg''},
     ops = [] \<rparr>"

text \<open>
  The first retained frames of two videos of one batch: the extraction loop names both
  files \<^verbatim>\<open>frame_0000_0.00s.jpg\<close> in the task directory, so one file is left.
\<close>

definition colliding_frames :: "frame_info list" where
  "colliding_frames =
     [(example_frame ''a'' 1)\<lparr> path := ''out/frame_0000_0.00s.jpg'',
         filename := ''frame_0000_0.00s.jpg'' \<rparr>,
      (example_frame ''b'' 2)\<lparr> path := ''out/frame_0000_0.00s.jpg'',
         filename := ''frame_0000_0.00s.jpg'' \<rparr>]"

definition colliding_fs :: fs_state where
  "colliding_fs = \<lparr> files = {''out/frame_0000_0.00s.jpg''}, ops = [] \<rparr>"

text \<open>
  A record as a finished task returns it, with its file in the task directory
  \<^verbatim>\<open>async_frames/task1\<close>; after the task the output directory of the extractor is
  \<^verbatim>\<open>async_frames\<close> again.
\<close>

definition returned_frames :: "frame_info list" where
  "returned_frames =
     [(example_frame ''a'' 1)\<lparr> path := ''async_frames/task1/frame_0000_video_a.jpg'',
         filename := ''frame_0000_video_a.jpg'' \<rparr>]"

definition returned_fs :: fs_state where
  "returned_fs = \<lparr> files = {''async_frames/task1/frame_0000_video_a.jpg''}, ops = [] \<rparr>"

section \<open>Properties\<close>

subsection \<open>The two variants agree\<close>

lemma FrameExtractorConfig_eq: "FrameExtractorConfig = AsyncFrameExtractorConfig"
  by (simp add: FrameExtractorConfig_def AsyncFrameExtractorConfig_def)

lemma Optimized_interval_and_strategy_eq:
  "Optimized_interval_and_strategy = Async_interval_and_strategy"
  by (rule ext)
     (simp only: Optimized_interval_and_strategy_def Async_interval_and_strategy_def
        FrameExtractorConfig_eq)

lemma Optimized_fps_factor_eq: "Optimized_fps_factor = Async_fps_factor"
  by (rule ext) (simp only: Optimized_fps_factor_def Async_fps_factor_def FrameExtractorConfig_eq)

lemma Optimized_planner_eq:
  "Optimized_calculate_optimal_frame_count = Async_calculate_optimal_frame_count"
  by (intro ext)
     (simp only: Optimized_calculate_optimal_frame_count_def
        Async_calculate_optimal_frame_count_def FrameExtractorConfig_eq
        Optimized_interval_and_strategy_eq Optimized_fps_factor_eq)

lemma Optimized_quality_eq:
  "Optimized_calculate_frame_quality = Async_calculate_frame_quality"
  by (intro ext)
     (simp only: Optimized_calculate_frame_quality_def Async_calculate_frame_quality_def
        FrameExtractorConfig_eq)

lemma Optimized_scene_eq: "Optimized_detect_scene_change = Async_detect_scene_change"
  by (intro ext)
     (simp only: Optimized_detect_scene_change_def Async_detect_scene_change_def
        FrameExtractorConfig_eq)

text \<open>
  C9. The non-concurrent variant computes the same sampling plan, the same quality
  metrics and the same scene-change result as the concurrent variant on every input,
  and its configuration class holds the same constants and threshold tables.
\<close>

theorem variants_agree:
  "Optimized_calculate_optimal_frame_count duration fps total_frames =
     Async_calculate_optimal_frame_count duration fps total_frames
   \<and> Optimized_calculate_frame_quality cv frame = Async_calculate_frame_quality cv frame
   \<and> Optimized_detect_scene_change cv frame1 frame2 sensitivity =
     Async_detect_scene_change cv frame1 frame2 sensitivity
   \<and> FrameExtractorConfig = AsyncFrameExtractorConfig"
  by (simp only: Optimized_planner_eq Optimized_quality_eq Optimized_scene_eq
        FrameExtractorConfig_eq simp_thms)

subsection \<open>Sampling planner\<close>

lemma py_int_half: "0 \<le> t \<Longrightarrow> py_int (real_of_int t * 0.5) = t div 2"
  using floor_divide_of_int_eq[of t 2, where ?'a = real] by (simp add: py_int_def)

lemma Async_max_allowed:
  "0 \<le> t \<Longrightarrow>
   min t (py_int (real_of_int t * MAX_FRAME_PERCENTAGE AsyncFrameExtractorConfig)) = t div 2"
  using py_int_half[of t] by (simp add: AsyncFrameExtractorConfig_def)

lemma Async_fps_factor_cases: "Async_fps_factor fps \<in> {0.8, 1.3, 1.15, 1}"
  by (simp add: Async_fps_factor_def AsyncFrameExtractorConfig_def)

lemma py_int_mono:
  assumes "x \<le> y"
  shows "py_int x \<le> py_int y"
proof -
  have "\<lceil>x\<rceil> \<le> \<lfloor>y\<rfloor>" if "x < 0" "0 \<le> y"
  proof -
    have "\<lceil>x\<rceil> \<le> 0" using that(1) by (simp add: ceiling_le_iff)
    moreover have "0 \<le> \<lfloor>y\<rfloor>" using that(2) by simp
    ultimately show ?thesis by linarith
  qed
  with assms show ?thesis
    unfolding py_int_def by (auto intro: floor_mono ceiling_mono)
qed

lemma py_int_of_int: "py_int (real_of_int k) = k"
  by (simp add: py_int_def)

lemma scaled_ge4:
  assumes "5 \<le> n"
  shows "4 \<le> py_int (real_of_int n * Async_fps_factor fps)"
proof -
  have f: "0.8 \<le> Async_fps_factor fps"
    using Async_fps_factor_cases[of fps] by auto
  have "(4::real) = 5 * 0.8" by simp
  also have "\<dots> \<le> real_of_int n * Async_fps_factor fps"
    using assms f by (intro mult_mono) auto
  finally have "real_of_int 4 \<le> real_of_int n * Async_fps_factor fps" by simp
  from py_int_mono[OF this] show ?thesis by (simp add: py_int_def)
qed

lemma scaled_ge_base:
  assumes "0 \<le> n" and "15 \<le> fps"
  shows "n \<le> py_int (real_of_int n * Async_fps_factor fps)"
proof -
  have f: "1 \<le> Async_fps_factor fps"
    using assms(2) by (simp add: Async_fps_factor_def AsyncFrameExtractorConfig_def)
  have "real_of_int n \<le> real_of_int n * Async_fps_factor fps"
    using assms(1) f by (simp add: mult_le_cancel_left1)
  from py_int_mono[OF this] show ?thesis by (simp add: py_int_of_int)
qed

lemma Async_calculate_unfold:
  assumes "0 \<le> total_frames"
  shows "Async_calculate_optimal_frame_count duration fps total_frames =
     (let n = min (Async_corrected duration fps) (total_frames div 2) in
      if n = 0 then Inl ZeroDivisionError
      else Inr \<lparr> optimal_frames = n, frame_interval = max 1 (total_frames div n),
        real_time_interval = (if n > 0 then duration / real_of_int n
                              else fst (Async_interval_and_strategy duration)),
        strategy = snd (Async_interval_and_strategy duration) \<rparr>)"
  unfolding Async_calculate_optimal_frame_count_def Async_corrected_def
  by (simp add: Async_max_allowed[OF assms] py_floordiv_def Let_def split_beta)

lemma Async_corrected_ge4: "4 \<le> Async_corrected duration fps"
  unfolding Async_corrected_def
  by (rule scaled_ge4) (simp add: AsyncFrameExtractorConfig_def)

lemma Async_corrected_ge5:
  assumes "15 \<le> fps"
  shows "5 \<le> Async_corrected duration fps"
proof -
  let ?n = "max (MIN_FRAME_COUNT AsyncFrameExtractorConfig)
        (py_int (duration / fst (Async_interval_and_strategy duration)))"
  have "5 \<le> ?n" by (simp add: AsyncFrameExtractorConfig_def)
  moreover have "?n \<le> Async_corrected duration fps"
    unfolding Async_corrected_def
    by (rule scaled_ge_base[OF _ assms]) (simp add: AsyncFrameExtractorConfig_def)
  ultimately show ?thesis by linarith
qed

lemma Async_planner_returns:
  assumes "2 \<le> total_frames"
  shows "\<exists>p. Async_calculate_optimal_frame_count duration fps total_frames = Inr p
           \<and> min 4 (total_frames div 2) \<le> optimal_frames p
           \<and> real_of_int (optimal_frames p) \<le> real_of_int total_frames * 0.5
           \<and> 1 \<le> frame_interval p
           \<and> (15 \<le> fps \<and> 10 \<le> total_frames \<longrightarrow> 5 \<le> optimal_frames p)"
proof -
  define n where "n = min (Async_corrected duration fps) (total_frames div 2)"
  have t0: "0 \<le> total_frames" using assms by simp
  have lo: "min 4 (total_frames div 2) \<le> n"
    unfolding n_def using Async_corrected_ge4[of duration fps] by simp
  have "1 \<le> total_frames div 2" using assms by simp
  with lo have n1: "1 \<le> n" by simp
  have hi: "real_of_int n \<le> real_of_int total_frames * 0.5"
  proof -
    have "n \<le> total_frames div 2" unfolding n_def by simp
    then have "2 * n \<le> total_frames" by simp
    then have "real_of_int (2 * n) \<le> real_of_int total_frames" by (simp only: of_int_le_iff)
    then show ?thesis by simp
  qed
  have five: "5 \<le> n" if "15 \<le> fps" "10 \<le> total_frames"
    unfolding n_def using Async_corrected_ge5[OF that(1), of duration] that(2) by simp
  show ?thesis
    unfolding Async_calculate_unfold[OF t0] n_def[symmetric] Let_def
    using lo hi n1 five by simp
qed

text \<open>
  C1 (as amended). For \<open>duration > 0\<close>, \<open>fps > 0\<close> and \<open>total_frames \<ge> 2\<close> the planner of
  either variant returns a plan with
  \<open>min 4 (total_frames div 2) \<le> optimal_frames \<le> total_frames * 0.5\<close> and
  \<open>frame_interval \<ge> 1\<close>; the lower bound \<open>5\<close> holds when moreover \<open>fps \<ge> 15\<close> and
  \<open>total_frames \<ge> 10\<close>.
\<close>

theorem planner_bounds:
  assumes "0 < duration" and "0 < fps" and "2 \<le> total_frames"
      and "calc = Async_calculate_optimal_frame_count
           \<or> calc = Optimized_calculate_optimal_frame_count"
  shows "\<exists>p. calc duration fps total_frames = Inr p
           \<and> min 4 (total_frames div 2) \<le> optimal_frames p
           \<and> real_of_int (optimal_frames p) \<le> real_of_int total_frames * 0.5
           \<and> 1 \<le> frame_interval p
           \<and> (15 \<le> fps \<and> 10 \<le> total_frames \<longrightarrow> 5 \<le> optimal_frames p)"
proof -
  from assms(4) have "calc = Async_calculate_optimal_frame_count"
    by (auto simp: Optimized_planner_eq)
  then show ?thesis using Async_planner_returns[OF assms(3)] by simp
qed

theorem planner_bounds_witness:
  "(0::real) < 2 \<and> (0::real) < 30 \<and> (2::int) \<le> 60 \<and> (15::real) \<le> 30 \<and> (10::int) \<le> 60
   \<and> (\<exists>p. Optimized_calculate_optimal_frame_count 2 30 60 = Inr p
           \<and> 5 \<le> optimal_frames p
           \<and> real_of_int (optimal_frames p) \<le> real_of_int 60 * 0.5
           \<and> 1 \<le> frame_interval p)"
  using planner_bounds[of 2 30 60 Optimized_calculate_optimal_frame_count] by auto

text \<open>
  The lower bound of five does not hold in general: an 8-frame clip at 24 frames per
  second (a third of a second long) gets \<open>optimal_frames = 4\<close>, because the cap by half
  of the total frame count is applied after the minimum of five.
\<close>

theorem planner_lower_bound_counterexample:
  "(0::real) < 1/3 \<and> (0::real) < 24 \<and> (0::int) < 8
   \<and> Async_calculate_optimal_frame_count (1/3) 24 8 =
       Inr \<lparr> optimal_frames = 4, frame_interval = 2, real_time_interval = 1/12,
             strategy = Strategy_ultra_short_dense \<rparr>
   \<and> \<not> 5 \<le> optimal_frames (projr (Async_calculate_optimal_frame_count (1/3) 24 8))"
  by (simp add: Async_calculate_optimal_frame_count_def Async_interval_and_strategy_def
      Async_fps_factor_def AsyncFrameExtractorConfig_def py_int_def py_floordiv_def)

text \<open>
  C2. A one-frame video (\<open>total_frames = 1\<close>, thirty frames per second) is a valid input;
  the cap \<open>min(1, int(0.5))\<close> is zero there, so \<open>optimal_frames = 0\<close> and the division
  \<^verbatim>\<open>total_frames // optimal_frames\<close> raises.
\<close>

theorem planner_single_frame_raises:
  "Async_calculate_optimal_frame_count (1/30) 30 1 = Inl ZeroDivisionError"
  by (simp add: Async_calculate_optimal_frame_count_def Async_interval_and_strategy_def
      Async_fps_factor_def AsyncFrameExtractorConfig_def py_int_def py_floordiv_def)

subsection \<open>Frame quality\<close>

lemma Async_quality_fields:
  "sharpness (Async_calculate_frame_quality cv frame) = Laplacian_var cv (to_gray cv frame)"
  "brightness (Async_calculate_frame_quality cv frame) = np_mean cv (to_gray cv frame)"
  "contrast (Async_calculate_frame_quality cv frame) = np_std cv (to_gray cv frame)"
  by (simp_all add: Async_calculate_frame_quality_def Let_def)

lemma Async_quality_score:
  "quality_score (Async_calculate_frame_quality cv frame) =
     0.5 * sharpness (Async_calculate_frame_quality cv frame)
   + 0.3 * contrast (Async_calculate_frame_quality cv frame)
   + 0.2 * min (brightness (Async_calculate_frame_quality cv frame) / 128) 1.0"
  by (simp add: Async_calculate_frame_quality_def Let_def AsyncFrameExtractorConfig_def)

text \<open>
  C7. For every frame the metrics returned are the variance of the Laplacian, the mean
  and the standard deviation of the gray frame, and the quality score is
  \<open>0.5 * sharpness + 0.3 * contrast + 0.2 * min (brightness / 128) 1\<close> of them; and of
  two frames that agree on brightness and on one of sharpness and contrast, the one that
  is at least as large in the other has at least as large a score.
\<close>

theorem quality_score_formula_monotone:
  fixes cv :: "'f image_ops"
  assumes "m = Async_calculate_frame_quality cv frame"
      and "m' = Async_calculate_frame_quality cv frame'"
  shows "sharpness m = Laplacian_var cv (to_gray cv frame)
         \<and> brightness m = np_mean cv (to_gray cv frame)
         \<and> contrast m = np_std cv (to_gray cv frame)
         \<and> quality_score m =
           0.5 * sharpness m + 0.3 * contrast m + 0.2 * min (brightness m / 128) 1.0
         \<and> (brightness m = brightness m' \<and> contrast m = contrast m'
              \<and> sharpness m \<le> sharpness m' \<longrightarrow> quality_score m \<le> quality_score m')
         \<and> (brightness m = brightness m' \<and> sharpness m = sharpness m'
              \<and> contrast m \<le> contrast m' \<longrightarrow> quality_score m \<le> quality_score m')"
proof -
  have fields: "sharpness m = Laplacian_var cv (to_gray cv frame)"
    "brightness m = np_mean cv (to_gray cv frame)"
    "contrast m = np_std cv (to_gray cv frame)"
    unfolding assms(1) by (rule Async_quality_fields)+
  have score: "quality_score m =
      0.5 * sharpness m + 0.3 * contrast m + 0.2 * min (brightness m / 128) 1.0"
    unfolding assms(1) by (rule Async_quality_score)
  have score': "quality_score m' =
      0.5 * sharpness m' + 0.3 * contrast m' + 0.2 * min (brightness m' / 128) 1.0"
    unfolding assms(2) by (rule Async_quality_score)
  have mono_s: "quality_score m \<le> quality_score m'"
    if "brightness m = brightness m'" "contrast m = contrast m'" "sharpness m \<le> sharpness m'"
    unfolding score score' using that by simp
  have mono_c: "quality_score m \<le> quality_score m'"
    if "brightness m = brightness m'" "sharpness m = sharpness m'" "contrast m \<le> contrast m'"
    unfolding score score' using that by simp
  from fields score mono_s mono_c show ?thesis by blast
qed

lemma example_quality:
  "Async_calculate_frame_quality example_ops 0 =
     \<lparr>sharpness = 100, brightness = 64, contrast = 10, quality_score = 53.1\<rparr>"
  "Async_calculate_frame_quality example_ops 2 =
     \<lparr>sharpness = 300, brightness = 64, contrast = 10, quality_score = 153.1\<rparr>"
  by (simp_all add: Async_calculate_frame_quality_def example_ops_def to_gray_def Let_def
        AsyncFrameExtractorConfig_def)

theorem quality_score_formula_monotone_witness:
  "brightness (Async_calculate_frame_quality example_ops 0) =
     brightness (Async_calculate_frame_quality example_ops 2)
   \<and> contrast (Async_calculate_frame_quality example_ops 0) =
     contrast (Async_calculate_frame_quality example_ops 2)
   \<and> sharpness (Async_calculate_frame_quality example_ops 0)
      \<le> sharpness (Async_calculate_frame_quality example_ops 2)
   \<and> sharpness (Async_calculate_frame_quality example_ops 0) =
       Laplacian_var example_ops (to_gray example_ops 0)
   \<and> quality_score (Async_calculate_frame_quality example_ops 0)
      \<le> quality_score (Async_calculate_frame_quality example_ops 2)"
  using quality_score_formula_monotone[OF refl refl, of example_ops 0 2]
  by (simp add: example_quality)

subsection \<open>Scene change detection\<close>

lemma scene_thresholds_table:
  "SCENE_THRESHOLDS AsyncFrameExtractorConfig ''low'' =
     Some \<lparr>pixel_threshold = 40, histogram_threshold = 1000,
          structural_threshold = 15, edge_threshold = 25, color_threshold = 800\<rparr>"
  "SCENE_THRESHOLDS AsyncFrameExtractorConfig ''medium'' =
     Some \<lparr>pixel_threshold = 25, histogram_threshold = 500,
          structural_threshold = 10, edge_threshold = 15, color_threshold = 400\<rparr>"
  "SCENE_THRESHOLDS AsyncFrameExtractorConfig ''high'' =
     Some \<lparr>pixel_threshold = 15, histogram_threshold = 200,
          structural_threshold = 8, edge_threshold = 10, color_threshold = 200\<rparr>"
  "SCENE_THRESHOLDS AsyncFrameExtractorConfig ''ultra'' =
     Some \<lparr>pixel_threshold = 10, histogram_threshold = 100,
          structural_threshold = 5, edge_threshold = 8, color_threshold = 100\<rparr>"
  by (simp_all add: AsyncFrameExtractorConfig_def)

lemma scene_thresholds_other:
  "sensitivity \<notin> set sensitivity_keys \<Longrightarrow>
   SCENE_THRESHOLDS AsyncFrameExtractorConfig sensitivity = None"
  by (simp add: AsyncFrameExtractorConfig_def sensitivity_keys_def)

lemma intensity_thresholds_other:
  "sensitivity \<notin> set sensitivity_keys \<Longrightarrow>
   INTENSITY_THRESHOLDS AsyncFrameExtractorConfig sensitivity = None"
  by (simp add: AsyncFrameExtractorConfig_def sensitivity_keys_def)

lemma intensity_thresholds_high:
  "INTENSITY_THRESHOLDS AsyncFrameExtractorConfig ''high'' = Some 40"
  by (simp add: AsyncFrameExtractorConfig_def)

lemma selected_thresholds:
  "sensitivity \<in> set sensitivity_keys \<Longrightarrow>
   dict_get (SCENE_THRESHOLDS AsyncFrameExtractorConfig) sensitivity dflt =
     dict_item (SCENE_THRESHOLDS AsyncFrameExtractorConfig) sensitivity"
  by (auto simp: sensitivity_keys_def dict_get_def dict_item_def scene_thresholds_table)

lemma Async_detect_fields:
  fixes cv :: "'f image_ops"
  defines "th s \<equiv> dict_get (SCENE_THRESHOLDS AsyncFrameExtractorConfig) s
                     (dict_item (SCENE_THRESHOLDS AsyncFrameExtractorConfig) ''high'')"
  shows "is_scene_change (Async_detect_scene_change cv frame1 frame2 s) \<longleftrightarrow>
           pixel_difference (Async_detect_scene_change cv frame1 frame2 s)
             > pixel_threshold (th s)
         \<or> histogram_difference (Async_detect_scene_change cv frame1 frame2 s)
             > histogram_threshold (th s)"
    and "change_intensity (Async_detect_scene_change cv frame1 frame2 s) =
           0.6 * (pixel_difference (Async_detect_scene_change cv frame1 frame2 s)
                    / pixel_threshold (th s))
         + 0.4 * (histogram_difference (Async_detect_scene_change cv frame1 frame2 s)
                    / histogram_threshold (th s))"
  by (simp_all add: Async_detect_scene_change_def Let_def th_def)

text \<open>
  C6. For a sensitivity among the four keys, the detector flags a scene change exactly
  when the pixel difference exceeds the pixel threshold of that key or the histogram
  difference exceeds its histogram threshold, and the intensity is
  \<open>0.6 * (pixel_diff / pixel_threshold) + 0.4 * (hist_diff / histogram_threshold)\<close>.
  The pixel difference is the mean absolute difference of the two gray frames and the
  histogram difference the chi-square distance of their histograms (the second frame
  resized when the shapes differ); both are returned. With key \<open>high\<close> the pixel
  threshold is 15, so a pixel difference of 20 is a scene change whatever the histogram
  difference.
\<close>

theorem detect_scene_change_rule:
  fixes cv :: "'f image_ops"
  assumes "sensitivity \<in> set sensitivity_keys"
      and "r = Async_detect_scene_change cv frame1 frame2 sensitivity"
      and "th = dict_item (SCENE_THRESHOLDS AsyncFrameExtractorConfig) sensitivity"
  shows "(is_scene_change r \<longleftrightarrow>
            pixel_difference r > pixel_threshold th
          \<or> histogram_difference r > histogram_threshold th)
       \<and> change_intensity r =
            0.6 * (pixel_difference r / pixel_threshold th)
          + 0.4 * (histogram_difference r / histogram_threshold th)
       \<and> pixel_difference r =
            mean_absdiff cv (to_gray cv frame1)
              (if shape cv (to_gray cv frame1) \<noteq> shape cv (to_gray cv frame2)
               then cv2_resize cv (to_gray cv frame2)
                      (fst (snd (shape cv (to_gray cv frame1))),
                       fst (shape cv (to_gray cv frame1)))
               else to_gray cv frame2)
       \<and> histogram_difference r =
            hist_chisqr cv (to_gray cv frame1)
              (if shape cv (to_gray cv frame1) \<noteq> shape cv (to_gray cv frame2)
               then cv2_resize cv (to_gray cv frame2)
                      (fst (snd (shape cv (to_gray cv frame1))),
                       fst (shape cv (to_gray cv frame1)))
               else to_gray cv frame2)
       \<and> (sensitivity = ''high'' \<and> pixel_difference r = 20 \<longrightarrow>
            pixel_threshold th = 15 \<and> is_scene_change r)"
proof -
  have sel: "dict_get (SCENE_THRESHOLDS AsyncFrameExtractorConfig) sensitivity
               (dict_item (SCENE_THRESHOLDS AsyncFrameExtractorConfig) ''high'') = th"
    unfolding assms(3) by (rule selected_thresholds[OF assms(1)])
  have a: "is_scene_change r \<longleftrightarrow>
            pixel_difference r > pixel_threshold th
          \<or> histogram_difference r > histogram_threshold th"
    unfolding assms(2) using Async_detect_fields(1)[of cv frame1 frame2 sensitivity]
    by (simp only: sel)
  have b: "change_intensity r =
            0.6 * (pixel_difference r / pixel_threshold th)
          + 0.4 * (histogram_difference r / histogram_threshold th)"
    unfolding assms(2) using Async_detect_fields(2)[of cv frame1 frame2 sensitivity]
    by (simp only: sel)
  have c: "pixel_difference r =
            mean_absdiff cv (to_gray cv frame1)
              (if shape cv (to_gray cv frame1) \<noteq> shape cv (to_gray cv frame2)
               then cv2_resize cv (to_gray cv frame2)
                      (fst (snd (shape cv (to_gray cv frame1))),
                       fst (shape cv (to_gray cv frame1)))
               else to_gray cv frame2)"
    unfolding assms(2) by (simp add: Async_detect_scene_change_def Let_def)
  have c': "histogram_difference r =
            hist_chisqr cv (to_gray cv frame1)
              (if shape cv (to_gray cv frame1) \<noteq> shape cv (to_gray cv frame2)
               then cv2_resize cv (to_gray cv frame2)
                      (fst (snd (shape cv (to_gray cv frame1))),
                       fst (shape cv (to_gray cv frame1)))
               else to_gray cv frame2)"
    unfolding assms(2) by (simp add: Async_detect_scene_change_def Let_def)
  have d: "pixel_threshold th = 15" if "sensitivity = ''high''"
    unfolding assms(3) that by (simp add: dict_item_def scene_thresholds_table)
  from a d have e: "is_scene_change r" if "sensitivity = ''high''" "pixel_difference r = 20"
    using that by simp
  from a b c c' d e show ?thesis by blast
qed

lemma example_scene:
  "Async_detect_scene_change example_ops 0 2 ''high'' =
     \<lparr>is_scene_change = True, change_intensity = 1.1, pixel_difference = 20,
      histogram_difference = 150\<rparr>"
  by (simp add: Async_detect_scene_change_def example_ops_def to_gray_def Let_def
        dict_get_def dict_item_def scene_thresholds_table)

theorem detect_scene_change_rule_witness:
  "''high'' \<in> set sensitivity_keys
   \<and> pixel_difference (Async_detect_scene_change example_ops 0 2 ''high'') = 20
   \<and> histogram_difference (Async_detect_scene_change example_ops 0 2 ''high'') =
       hist_chisqr example_ops 0 2
   \<and> \<not> histogram_difference (Async_detect_scene_change example_ops 0 2 ''high'') > 200
   \<and> is_scene_change (Async_detect_scene_change example_ops 0 2 ''high'')
   \<and> change_intensity (Async_detect_scene_change example_ops 0 2 ''high'') = 1.1"
  using detect_scene_change_rule[OF _ refl refl, of "''high''" example_ops 0 2]
  by (simp add: sensitivity_keys_def example_scene)
     (simp add: example_ops_def)

text \<open>
  C10. A sensitivity that is none of the four keys is treated as \<open>high\<close>: the detector
  returns what it returns for \<open>high\<close>, the retention rule compares the intensity with the
  default 40, which is the entry of \<open>high\<close>, and so decides as it does for \<open>high\<close>.
\<close>

theorem unknown_sensitivity_is_high:
  fixes cv :: "'f image_ops"
  assumes "sensitivity \<notin> set sensitivity_keys"
  shows "Async_detect_scene_change cv frame1 frame2 sensitivity =
           Async_detect_scene_change cv frame1 frame2 ''high''
       \<and> dict_get (INTENSITY_THRESHOLDS AsyncFrameExtractorConfig) sensitivity 40.0 = 40
       \<and> dict_item (INTENSITY_THRESHOLDS AsyncFrameExtractorConfig) ''high'' = 40
       \<and> Async_should_keep_frame cv frame previous_frame metrics sharpness_threshold
           similarity_threshold sensitivity =
         Async_should_keep_frame cv frame previous_frame metrics sharpness_threshold
           similarity_threshold ''high''"
proof -
  have th: "dict_get (SCENE_THRESHOLDS AsyncFrameExtractorConfig) sensitivity
              (dict_item (SCENE_THRESHOLDS AsyncFrameExtractorConfig) ''high'') =
            dict_get (SCENE_THRESHOLDS AsyncFrameExtractorConfig) ''high''
              (dict_item (SCENE_THRESHOLDS AsyncFrameExtractorConfig) ''high'')"
    by (simp add: dict_get_def dict_item_def scene_thresholds_other[OF assms]
          scene_thresholds_table)
  have det: "Async_detect_scene_change cv f1 f2 sensitivity =
             Async_detect_scene_change cv f1 f2 ''high''" for f1 f2
    unfolding Async_detect_scene_change_def by (simp only: th)
  have it: "dict_get (INTENSITY_THRESHOLDS AsyncFrameExtractorConfig) sensitivity 40.0 = 40"
    by (simp add: dict_get_def intensity_thresholds_other[OF assms])
  have ih: "dict_get (INTENSITY_THRESHOLDS AsyncFrameExtractorConfig) ''high'' 40.0 = 40"
    by (simp add: dict_get_def intensity_thresholds_high)
  have ii: "dict_item (INTENSITY_THRESHOLDS AsyncFrameExtractorConfig) ''high'' = 40"
    by (simp add: dict_item_def intensity_thresholds_high)
  have keep: "Async_should_keep_frame cv frame previous_frame metrics sharpness_threshold
           similarity_threshold sensitivity =
         Async_should_keep_frame cv frame previous_frame metrics sharpness_threshold
           similarity_threshold ''high''"
    unfolding Async_should_keep_frame_def by (simp only: det it ih)
  from det it ii keep show ?thesis by simp
qed

theorem unknown_sensitivity_is_high_witness:
  "''extreme'' \<notin> set sensitivity_keys
   \<and> Async_detect_scene_change example_ops 0 2 ''extreme'' =
       Async_detect_scene_change example_ops 0 2 ''high''
   \<and> Async_should_keep_frame example_ops 2 (Some 0)
       (Async_calculate_frame_quality example_ops 2) 100 15 ''extreme'' =
     Async_should_keep_frame example_ops 2 (Some 0)
       (Async_calculate_frame_quality example_ops 2) 100 15 ''high''"
  using unknown_sensitivity_is_high[of "''extreme''" example_ops 0 2 2 "Some 0"
      "Async_calculate_frame_quality example_ops 2" 100 15]
  by (simp add: sensitivity_keys_def)

subsection \<open>Performance profile\<close>

lemma try_profile_raises:
  assumes "telemetry_raises host"
  shows "isl (try_performance_profile self host)"
  using assms unfolding telemetry_raises_def try_performance_profile_def
  by (auto split: sum.splits)

text \<open>
  C5 (as amended). When one of the telemetry queries raises, \<open>get_performance_profile\<close>
  returns the fixed default profile and raises nothing. The level of that profile is
  \<open>medium\<close>; its concurrency configuration is the fixed \<open>max_workers = 4\<close>,
  \<open>batch_size = 2\<close>, \<open>memory_buffer_mb = 512\<close>, \<open>io_workers = 1\<close>, which is the row \<open>low\<close>
  of the tier table for four cores.
\<close>

theorem profile_falls_back_to_default:
  assumes "telemetry_raises host"
  shows "get_performance_profile self host = get_default_profile
       \<and> performance_level get_default_profile = ''medium''
       \<and> concurrency_config get_default_profile =
           \<lparr>max_workers = 4, batch_size = 2, memory_buffer_mb = 512, io_workers = 1\<rparr>
       \<and> get_concurrency_config (self\<lparr>cpu_count := cpu_cores_physical get_default_profile\<rparr>)
           ''low'' = Inr (concurrency_config get_default_profile)"
proof -
  from try_profile_raises[OF assms, of self]
  have "get_performance_profile self host = get_default_profile"
    unfolding get_performance_profile_def by (auto split: sum.splits)
  moreover have "get_concurrency_config
      (self\<lparr>cpu_count := cpu_cores_physical get_default_profile\<rparr>) ''low'' =
      Inr (concurrency_config get_default_profile)"
    by (simp add: get_concurrency_config_def get_default_profile_def dict_get_def Let_def)
  ultimately show ?thesis
    by (simp add: get_default_profile_def)
qed

theorem profile_falls_back_to_default_witness:
  "telemetry_raises example_failing_host
   \<and> get_performance_profile example_detector example_failing_host = get_default_profile
   \<and> batch_size (concurrency_config
        (get_performance_profile example_detector example_failing_host)) = 2"
  using profile_falls_back_to_default[of example_failing_host example_detector]
  by (simp add: telemetry_raises_def example_failing_host_def)

text \<open>
  The default is not the row \<open>medium\<close> of the tier table: on a host with four cores
  whose disk query raises, that row would be six workers, batches of four, 1024 MB and
  two I/O workers, and the profile returned has four, two, 512 MB and one.
\<close>

theorem default_profile_not_medium_row_counterexample:
  "telemetry_raises example_failing_host
   \<and> get_concurrency_config example_detector ''medium'' =
       Inr \<lparr>max_workers = 6, batch_size = 4, memory_buffer_mb = 1024, io_workers = 2\<rparr>
   \<and> concurrency_config (get_performance_profile example_detector example_failing_host) =
       \<lparr>max_workers = 4, batch_size = 2, memory_buffer_mb = 512, io_workers = 1\<rparr>
   \<and> Inr (concurrency_config (get_performance_profile example_detector example_failing_host))
       \<noteq> get_concurrency_config example_detector ''medium''"
  by (simp add: telemetry_raises_def example_failing_host_def example_detector_def
        get_performance_profile_def try_performance_profile_def get_default_profile_def
        get_concurrency_config_def dict_get_def Let_def)

subsection \<open>Global cap\<close>

lemma Optimized_enforce_cap_eq: "Optimized_enforce_cap = Async_enforce_cap"
  by (intro ext)
     (simp only: Optimized_enforce_cap_def Async_enforce_cap_def FrameExtractorConfig_eq)

lemma files_delete_files: "files (delete_files rs st) = files st - path ` set rs"
  by (induction rs arbitrary: st) (auto simp: os_remove_def)

lemma mset_sort_by_quality_desc: "mset (sort_by_quality_desc xs) = mset xs"
  by (simp add: sort_by_quality_desc_def)

lemma sorted_sort_by_quality_desc:
  "sorted (map (\<lambda>x. - quality_score (quality_metrics x)) (sort_by_quality_desc xs))"
  unfolding sort_by_quality_desc_def by (rule sorted_sort_key)

lemma take_drop_ordered:
  assumes "sorted (map f ys)" and "a \<in> set (take k ys)" and "b \<in> set (drop k ys)"
  shows "f a \<le> f b"
proof -
  have "sorted (map f (take k ys) @ map f (drop k ys))"
    using assms(1) by (simp flip: map_append)
  then have "\<forall>x \<in> set (map f (take k ys)). \<forall>y \<in> set (map f (drop k ys)). x \<le> y"
    by (simp add: sorted_append)
  with assms(2,3) show ?thesis by auto
qed

lemma mset_minus_take: "mset ys - mset (take k ys) = mset (drop k ys)"
proof -
  have "mset ys = mset (take k ys) + mset (drop k ys)"
    by (simp flip: mset_append)
  then show ?thesis by simp
qed

lemma Async_enforce_cap_over:
  assumes "0 \<le> effective_cap kw" and "int (length xs) > effective_cap kw"
  shows "Async_enforce_cap kw xs st =
           (take (nat (effective_cap kw)) (sort_by_quality_desc xs),
            delete_files (drop (nat (effective_cap kw)) (sort_by_quality_desc xs)) st)"
proof -
  have len: "length (sort_by_quality_desc xs) = length xs"
    by (simp add: sort_by_quality_desc_def)
  have "slice_index (sort_by_quality_desc xs) (effective_cap kw) = nat (effective_cap kw)"
    using assms by (simp add: slice_index_def len)
  then show ?thesis
    using assms(2) by (simp add: Async_enforce_cap_def effective_cap_def Let_def)
qed

lemma Async_enforce_cap_under:
  assumes "\<not> int (length xs) > effective_cap kw"
  shows "Async_enforce_cap kw xs st = (xs, st)"
  using assms by (simp add: Async_enforce_cap_def effective_cap_def Let_def)

text \<open>
  C4. When more records were retained than the cap allows, the cap step of either
  variant returns exactly \<open>max_base_frames\<close> of them: the first \<open>max_base_frames\<close> of the
  list sorted by quality score in descending order. Every record it returns is one of
  the retained records, every retained record it does not return has a score no higher
  than any record it returns, and the files of those records are gone.
\<close>

theorem global_cap_keeps_top:
  assumes "0 \<le> effective_cap kw" and "int (length xs) > effective_cap kw"
      and "enforce = Async_enforce_cap \<or> enforce = Optimized_enforce_cap"
      and "kept = fst (enforce kw xs st)"
  shows "length kept = nat (effective_cap kw)
       \<and> kept = take (nat (effective_cap kw)) (sort_by_quality_desc xs)
       \<and> mset kept \<subseteq># mset xs
       \<and> (\<forall>a \<in> set kept. \<forall>b \<in># mset xs - mset kept.
            quality_score (quality_metrics b) \<le> quality_score (quality_metrics a))
       \<and> (\<forall>b \<in># mset xs - mset kept. path b \<notin> files (snd (enforce kw xs st)))"
proof -
  let ?m = "nat (effective_cap kw)"
  let ?ys = "sort_by_quality_desc xs"
  from assms(3) have enf: "enforce = Async_enforce_cap"
    by (auto simp: Optimized_enforce_cap_eq)
  have res: "enforce kw xs st = (take ?m ?ys, delete_files (drop ?m ?ys) st)"
    unfolding enf by (rule Async_enforce_cap_over[OF assms(1,2)])
  have kept: "kept = take ?m ?ys"
    unfolding assms(4) res by simp
  have len: "length kept = ?m"
    unfolding kept using assms(2) by (simp add: sort_by_quality_desc_def)
  have sub: "mset kept \<subseteq># mset xs"
  proof -
    have "mset (take ?m ?ys) \<subseteq># mset ?ys"
      by (metis append_take_drop_id mset_append mset_subset_eq_add_left)
    then show ?thesis by (simp add: kept mset_sort_by_quality_desc)
  qed
  have rest: "mset xs - mset kept = mset (drop ?m ?ys)"
    unfolding kept using mset_minus_take[of ?ys ?m] by (simp add: mset_sort_by_quality_desc)
  have ord: "quality_score (quality_metrics b) \<le> quality_score (quality_metrics a)"
    if "a \<in> set kept" "b \<in># mset xs - mset kept" for a b
  proof -
    from that(2) have "b \<in> set (drop ?m ?ys)" by (simp add: rest)
    with take_drop_ordered[OF sorted_sort_by_quality_desc, of a ?m xs b] that(1)
    show ?thesis by (simp add: kept)
  qed
  have gone: "path b \<notin> files (snd (enforce kw xs st))"
    if "b \<in># mset xs - mset kept" for b
  proof -
    from that have "b \<in> set (drop ?m ?ys)" by (simp add: rest)
    then show ?thesis by (simp add: res files_delete_files)
  qed
  from len kept sub ord gone show ?thesis by blast
qed

lemma example_sorted:
  "sort_by_quality_desc example_frames =
     [example_frame ''c'' 3, example_frame ''b'' 2, example_frame ''a'' 1]"
  by (simp add: sort_by_quality_desc_def example_frames_def example_frame_def)


theorem global_cap_keeps_top_witness:
  "0 \<le> effective_cap (Some 2) \<and> int (length example_frames) > effective_cap (Some 2)
   \<and> length (fst (Async_enforce_cap (Some 2) example_frames example_fs)) = 2
   \<and> fst (Async_enforce_cap (Some 2) example_frames example_fs) =
       [example_frame ''c'' 3, example_frame ''b'' 2]"
  using global_cap_keeps_top[of "Some 2" example_frames Async_enforce_cap _ example_fs,
      OF _ _ _ refl]
  by (simp add: effective_cap_def example_frames_def example_sorted[unfolded example_frames_def])

subsection \<open>Re-indexing\<close>








lemma format_04d_examples: "format_04d 0 = ''0000''" "format_04d (Suc 0) = ''0001''"
  by (simp_all add: format_04d_def numeral_eq_Suc)






subsection \<open>Running the renaming pass again\<close>

text \<open>A pass over a settled list touches nothing.\<close>

lemma rename_files_noop:
  "settled_from output_dir i rs (files st) \<Longrightarrow> rename_files output_dir i rs st = (rs, st)"
  by (induction rs arbitrary: i) (auto simp: new_path_def Let_def)

text \<open>The log of operations only grows, and it grows when a record is rewritten.\<close>

lemma rename_files_ops:
  "\<exists>ys. ops (snd (rename_files output_dir i rs st)) = ops st @ ys"
proof (induction rs arbitrary: i st)
  case Nil
  then show ?case by simp
next
  case (Cons r rs)
  let ?new = "path_join output_dir (new_filename i r)"
  let ?st1 = "if ?new \<in> files st then os_remove ?new st else st"
  let ?st2 = "os_rename (path r) ?new ?st1"
  show ?case
  proof (cases "path r \<noteq> ?new \<and> path r \<in> files st")
    case True
    from Cons.IH[of "Suc i" ?st2] obtain ys
      where "ops (snd (rename_files output_dir (Suc i) rs ?st2)) = ops ?st2 @ ys" by blast
    moreover have "\<exists>zs. ops ?st2 = ops st @ zs"
      by (simp add: os_rename_def os_remove_def)
    ultimately show ?thesis
      using True by (auto simp: Let_def split_beta)
  next
    case False
    with Cons.IH[of "Suc i" st] show ?thesis
      by (auto simp: Let_def split_beta)
  qed
qed

lemma rename_files_rewrites_grow:
  assumes "path r \<noteq> path_join output_dir (new_filename i r)" and "path r \<in> files st"
  shows "length (ops st) < length (ops (snd (rename_files output_dir i (r # rs) st)))"
proof -
  let ?new = "path_join output_dir (new_filename i r)"
  let ?st1 = "if ?new \<in> files st then os_remove ?new st else st"
  let ?st2 = "os_rename (path r) ?new ?st1"
  obtain ys where "ops (snd (rename_files output_dir (Suc i) rs ?st2)) = ops ?st2 @ ys"
    using rename_files_ops by blast
  moreover have "length (ops st) < length (ops ?st2)"
    by (simp add: os_rename_def os_remove_def)
  ultimately show ?thesis
    using assms by (simp add: Let_def split_beta)
qed

lemma rename_files_noop_only_settled:
  "rename_files output_dir i rs st = (rs, st) \<Longrightarrow> settled_from output_dir i rs (files st)"
proof (induction rs arbitrary: i)
  case Nil
  then show ?case by simp
next
  case (Cons r rs)
  have quiet: "\<not> (path r \<noteq> path_join output_dir (new_filename i r) \<and> path r \<in> files st)"
  proof
    assume g: "path r \<noteq> path_join output_dir (new_filename i r) \<and> path r \<in> files st"
    then have "length (ops st) < length (ops (snd (rename_files output_dir i (r # rs) st)))"
      by (intro rename_files_rewrites_grow) auto
    with Cons.prems show False by simp
  qed
  with Cons.prems have "rename_files output_dir (Suc i) rs st = (rs, st)"
    by (auto simp: Let_def split_beta prod_eq_iff)
  then have "settled_from output_dir (Suc i) rs (files st)" by (rule Cons.IH)
  with quiet show ?case by (auto simp: new_path_def)
qed

text \<open>A pass creates no file but at the paths it assigns.\<close>

lemma rename_files_files_sub:
  "files (snd (rename_files output_dir i rs st))
     \<subseteq> files st \<union> path ` set (renamed_from output_dir i rs)"
proof (induction rs arbitrary: i st)
  case Nil
  then show ?case by simp
next
  case (Cons r rs)
  let ?new = "path_join output_dir (new_filename i r)"
  let ?st1 = "if ?new \<in> files st then os_remove ?new st else st"
  let ?st2 = "os_rename (path r) ?new ?st1"
  have new: "?new = path (renamed output_dir i r)"
    by (simp add: renamed_def new_path_def)
  show ?case
  proof (cases "path r \<noteq> ?new \<and> path r \<in> files st")
    case True
    have "files ?st2 \<subseteq> files st \<union> {?new}"
      by (auto simp: os_rename_def os_remove_def)
    with Cons.IH[of "Suc i" ?st2]
    have "files (snd (rename_files output_dir (Suc i) rs ?st2))
            \<subseteq> files st \<union> {?new} \<union> path ` set (renamed_from output_dir (Suc i) rs)"
      by blast
    then show ?thesis
      using True unfolding new by (auto simp: Let_def split_beta renamed_def new_path_def)
  next
    case False
    with Cons.IH[of "Suc i" st] show ?thesis
      by (auto simp: Let_def split_beta)
  qed
qed

lemma new_filename_update:
  "new_filename i (r\<lparr>path := p, filename := f, extracted_index := e\<rparr>) = new_filename i r"
  by (simp add: new_filename_def)

text \<open>After a pass over records none of whose paths is a path the pass assigns, the
  list is settled in the file system the pass leaves.\<close>

lemma rename_files_settles:
  assumes "path ` set rs \<inter> path ` set (renamed_from output_dir i rs) = {}"
  shows "settled_from output_dir i (fst (rename_files output_dir i rs st))
           (files (snd (rename_files output_dir i rs st)))"
  using assms
proof (induction rs arbitrary: i st)
  case Nil
  then show ?case by simp
next
  case (Cons r rs)
  let ?new = "path_join output_dir (new_filename i r)"
  let ?st1 = "if ?new \<in> files st then os_remove ?new st else st"
  let ?st2 = "os_rename (path r) ?new ?st1"
  have tail: "path ` set rs \<inter> path ` set (renamed_from output_dir (Suc i) rs) = {}"
    using Cons.prems by auto
  show ?case
  proof (cases "path r \<noteq> ?new \<and> path r \<in> files st")
    case True
    from Cons.IH[OF tail, of ?st2] show ?thesis
      using True by (simp add: Let_def split_beta new_path_def new_filename_update)
  next
    case False
    have "path r \<notin> files (snd (rename_files output_dir (Suc i) rs st))"
      if "path r \<noteq> ?new"
    proof -
      from that False have "path r \<notin> files st" by simp
      moreover have "path r \<notin> path ` set (renamed_from output_dir (Suc i) rs)"
        using Cons.prems by auto
      ultimately show ?thesis
        using rename_files_files_sub[of output_dir "Suc i" rs st] by blast
    qed
    with Cons.IH[OF tail, of st] show ?thesis
      using False by (auto simp: Let_def split_beta new_path_def)
  qed
qed

lemma names_match_settled:
  assumes "names_match_from i rs"
      and "map path rs = map (path_join output_dir) (map filename rs)"
  shows "settled_from output_dir i rs existing"
  using assms by (induction rs arbitrary: i) (simp_all add: new_path_def)

text \<open>
  C8 (as amended). The renaming pass of either variant performs no rename and no delete
  and leaves every record as it is exactly when every record's path is the path of its
  position in the output directory or names no existing file; so it does when every
  record's path, file name and index are those of its position. A second run directly
  after a first run in the same output directory changes nothing, provided none of the
  original paths is a path the pass assigns.
\<close>

theorem rename_pass_idempotent:
  assumes "rename = Async_rename_frames \<or> rename = Optimized_rename_frames"
  shows "(rename output_dir xs st = (xs, st)) = settled_from output_dir 0 xs (files st)
       \<and> (names_match_from 0 xs
            \<and> map path xs = map (path_join output_dir) (map filename xs)
          \<longrightarrow> rename output_dir xs st = (xs, st))
       \<and> (path ` set xs \<inter> path ` set (renamed_from output_dir 0 xs) = {}
          \<longrightarrow> rename output_dir (fst (rename output_dir xs st))
                 (snd (rename output_dir xs st)) = rename output_dir xs st)"
proof -
  from assms have r: "rename output_dir ys s = rename_files output_dir 0 ys s" for ys s
    by (auto simp: Async_rename_frames_def Optimized_rename_frames_def)
  have a: "(rename output_dir xs st = (xs, st)) = settled_from output_dir 0 xs (files st)"
    unfolding r using rename_files_noop rename_files_noop_only_settled by blast
  have b: "rename output_dir xs st = (xs, st)"
    if "names_match_from 0 xs" "map path xs = map (path_join output_dir) (map filename xs)"
    unfolding r by (rule rename_files_noop[OF names_match_settled[OF that]])
  have c: "rename output_dir (fst (rename output_dir xs st))
             (snd (rename output_dir xs st)) = rename output_dir xs st"
    if "path ` set xs \<inter> path ` set (renamed_from output_dir 0 xs) = {}"
  proof -
    obtain rs st' where p: "rename_files output_dir 0 xs st = (rs, st')"
      by (cases "rename_files output_dir 0 xs st")
    from rename_files_settles[OF that, of st] have "settled_from output_dir 0 rs (files st')"
      by (simp add: p)
    then have "rename_files output_dir 0 rs st' = (rs, st')" by (rule rename_files_noop)
    then show ?thesis by (simp add: r p)
  qed
  from a b c show ?thesis by blast
qed

lemma colliding_pass:
  "rename_files ''out'' 0 colliding_frames colliding_fs =
     ([(example_frame ''a'' 1)\<lparr>path := ''out/frame_0000_video_a.jpg'',
          filename := ''frame_0000_video_a.jpg'', extracted_index := 0\<rparr>,
       (example_frame ''b'' 2)\<lparr>path := ''out/frame_0000_0.00s.jpg'',
          filename := ''frame_0000_0.00s.jpg''\<rparr>],
      \<lparr>files = {''out/frame_0000_video_a.jpg''},
       ops = [Rename ''out/frame_0000_0.00s.jpg'' ''out/frame_0000_video_a.jpg'']\<rparr>)"
  unfolding colliding_frames_def colliding_fs_def
  by (simp add: example_frame_def Let_def new_filename_def splitext_def
        format_04d_examples path_join_def os_rename_def)

lemma colliding_fresh:
  "path ` set colliding_frames \<inter> path ` set (renamed_from ''out'' 0 colliding_frames) = {}"
  unfolding colliding_frames_def
  by (simp add: example_frame_def renamed_def new_path_def new_filename_def splitext_def
        format_04d_examples path_join_def)

theorem rename_pass_idempotent_witness:
  "path ` set colliding_frames \<inter> path ` set (renamed_from ''out'' 0 colliding_frames) = {}
   \<and> Optimized_rename_frames ''out''
        (fst (Optimized_rename_frames ''out'' colliding_frames colliding_fs))
        (snd (Optimized_rename_frames ''out'' colliding_frames colliding_fs)) =
      Optimized_rename_frames ''out'' colliding_frames colliding_fs
   \<and> settled_from ''out'' 0
        (fst (Optimized_rename_frames ''out'' colliding_frames colliding_fs))
        (files (snd (Optimized_rename_frames ''out'' colliding_frames colliding_fs)))
   \<and> ops (snd (Optimized_rename_frames ''out'' colliding_frames colliding_fs)) =
       [Rename ''out/frame_0000_0.00s.jpg'' ''out/frame_0000_video_a.jpg'']"
proof -
  note t = rename_pass_idempotent[OF disjI2[OF refl],
      where output_dir = "''out''" and xs = colliding_frames and st = colliding_fs]
  from t colliding_fresh have again: "Optimized_rename_frames ''out''
        (fst (Optimized_rename_frames ''out'' colliding_frames colliding_fs))
        (snd (Optimized_rename_frames ''out'' colliding_frames colliding_fs)) =
      Optimized_rename_frames ''out'' colliding_frames colliding_fs"
    by blast
  note u = rename_pass_idempotent[OF disjI2[OF refl],
      where output_dir = "''out''"
        and xs = "fst (Optimized_rename_frames ''out'' colliding_frames colliding_fs)"
        and st = "snd (Optimized_rename_frames ''out'' colliding_frames colliding_fs)"]
  from u again have settled: "settled_from ''out'' 0
        (fst (Optimized_rename_frames ''out'' colliding_frames colliding_fs))
        (files (snd (Optimized_rename_frames ''out'' colliding_frames colliding_fs)))"
    by simp
  have "ops (snd (Optimized_rename_frames ''out'' colliding_frames colliding_fs)) =
       [Rename ''out/frame_0000_0.00s.jpg'' ''out/frame_0000_video_a.jpg'']"
    unfolding Optimized_rename_frames_def colliding_pass by simp
  with again settled colliding_fresh show ?thesis by blast
qed

text \<open>
  File name and index at their place do not suffice: the record a finished task returns
  has both, and its file lies in the task directory; a pass run after the task, when the
  output directory is the parent again, moves the file there and rewrites the path.
\<close>

theorem rename_pass_moves_returned_counterexample:
  "names_match_from 0 returned_frames
   \<and> ops (snd (Async_rename_frames ''async_frames'' returned_frames returned_fs)) =
       [Rename ''async_frames/task1/frame_0000_video_a.jpg''
          ''async_frames/frame_0000_video_a.jpg'']
   \<and> map path (fst (Async_rename_frames ''async_frames'' returned_frames returned_fs)) =
       [''async_frames/frame_0000_video_a.jpg'']
   \<and> map path returned_frames = [''async_frames/task1/frame_0000_video_a.jpg'']
   \<and> Async_rename_frames ''async_frames'' returned_frames returned_fs
       \<noteq> (returned_frames, returned_fs)"
  unfolding Async_rename_frames_def returned_frames_def returned_fs_def
  by (simp add: example_frame_def Let_def new_filename_def splitext_def
        format_04d_examples path_join_def os_rename_def)

text \<open>
  In a batch of two videos the first retained frames of both were written to the same
  file. The pass renames that file for the first record and finds none for the second,
  which keeps its old path, its old file name and the index 0.
\<close>

theorem colliding_batch_second_record_unrewritten:
  "map (\<lambda>r. (source_file r, extracted_index r, path r))
     (fst (Async_rename_frames ''out'' colliding_frames colliding_fs)) =
     [(''a.mp4'', 0, ''out/frame_0000_video_a.jpg''),
      (''b.mp4'', 0, ''out/frame_0000_0.00s.jpg'')]
   \<and> files (snd (Async_rename_frames ''out'' colliding_frames colliding_fs)) =
       {''out/frame_0000_video_a.jpg''}"
  unfolding Async_rename_frames_def colliding_pass
  by (simp add: example_frame_def)

end
